theory Spec2Isabelle
  imports Main "HOL-Library.Word"
begin

unbundle bit_operations_syntax

text \<open>
  A model of \<^verbatim>\<open>src/main.cpp\<close>, the firmware that polls an ABB Aurora inverter, keeps a
  status snapshot, publishes it over MQTT and reports the day's energy to PVOutput. Every
  function of the program that the properties below are about is a function here with the
  same name. What the hardware and the libraries answer during a call (the clock, the
  inverter's replies, connection states, the HTTP status) is an input record of that call;
  what the program does to them is returned as a list of events. The globals are the
  fields of \<open>state\<close>.
\<close>

section \<open>Machine types of the ESP8266 build\<close>

text \<open>
  The firmware is built for the ESP8266 (\<^verbatim>\<open>ESP8266WiFi.h\<close>, board \<^verbatim>\<open>d1_mini\<close>), where
  \<^verbatim>\<open>unsigned long\<close> has 32 bits and \<^verbatim>\<open>float\<close> is an IEEE-754 binary32 value. Both are
  modelled as 32-bit words: \<open>u32\<close> with wrap-around arithmetic, \<open>f32\<close> as the bit pattern of
  the float. \<^verbatim>\<open>int\<close> values (HTTP status codes, calendar fields) are never used in
  arithmetic by the program and are modelled as \<open>int\<close>.
\<close>

type_synonym u32 = "32 word"
type_synonym f32 = "32 word"

text \<open>\<^verbatim>\<open>NAN\<close> of \<^verbatim>\<open>math.h\<close>: the quiet NaN with an empty payload.\<close>

definition NAN :: f32 where
  "NAN = 0x7FC00000"

text \<open>\<^verbatim>\<open>isnan\<close>: exponent bits all set and a mantissa that is not zero.\<close>

definition isnan :: "f32 \<Rightarrow> bool" where
  "isnan v = (0x7F800000 < (v AND 0x7FFFFFFF))"

section \<open>The fragments of printf the program uses\<close>

text \<open>Decimal digits of a natural number, most significant first (\<^verbatim>\<open>%lu\<close>, \<^verbatim>\<open>%d\<close>).\<close>

fun dec :: "nat \<Rightarrow> string" where
  "dec n = (if n < 10 then [''0123456789'' ! n]
            else dec (n div 10) @ [''0123456789'' ! (n mod 10)])"

declare dec.simps [simp del]

definition fmt_lu :: "u32 \<Rightarrow> string" where
  "fmt_lu w = dec (unat w)"

definition fmt_d :: "int \<Rightarrow> string" where
  "fmt_d i = (if i < 0 then ''-'' @ dec (nat (- i)) else dec (nat i))"

text \<open>\<^verbatim>\<open>%0wd\<close>: the sign first, then zeros up to the width \<open>w\<close>, then the digits.\<close>

definition fmt_0d :: "nat \<Rightarrow> int \<Rightarrow> string" where
  "fmt_0d w i =
     (let sgn = (if i < 0 then ''-'' else []); ds = dec (nat \<bar>i\<bar>)
      in sgn @ replicate (w - length sgn - length ds) (CHR ''0'') @ ds)"

text \<open>
  A format whose only directives are \<^verbatim>\<open>%s\<close>: each one is replaced by the next argument.
  Every such format of the program has as many directives as arguments.
\<close>

fun printf_s :: "string \<Rightarrow> string list \<Rightarrow> string" where
  "printf_s (c # d # rest) (a # as) =
     (if c = CHR ''%'' \<and> d = CHR ''s'' then a @ printf_s rest as
      else c # printf_s (d # rest) (a # as))"
| "printf_s fmt as = fmt"

section \<open>Build configuration and library functions\<close>

text \<open>
  \<^verbatim>\<open>defs.h\<close> is not part of the sources; the macros the modelled code reads from it are
  the fields of \<open>config\<close>. \<open>default_config\<close> holds the fallbacks of \<^verbatim>\<open>main.cpp\<close>
  (\<^verbatim>\<open>#ifndef NTP_OFFSET\<close> and the two update periods); the topic name has no fallback.
  An \<^verbatim>\<open>int\<close> macro used in \<^verbatim>\<open>unsigned long\<close> arithmetic is converted to
  \<^verbatim>\<open>unsigned long\<close> first, so the fields are \<open>u32\<close>.
\<close>

record config =
  NTP_OFFSET :: u32
  UPDATE_PERIOD_PVOUTPUT :: u32
  UPDATE_PERIOD_STATS :: u32
  MQTT_TOPIC :: string

definition default_config :: "string \<Rightarrow> config" where
  "default_config topic =
     \<lparr>NTP_OFFSET = 0, UPDATE_PERIOD_PVOUTPUT = 300, UPDATE_PERIOD_STATS = 30,
      MQTT_TOPIC = topic\<rparr>"

text \<open>
  Functions of the language and of libraries outside the repository that the modelled
  code calls as pure functions: float addition, \<^verbatim>\<open>%.2f\<close> of \<^verbatim>\<open>snprintf\<close>, and the calendar
  fields of TimeLib. They are parameters of the model.
\<close>

record platform =
  fadd :: "f32 \<Rightarrow> f32 \<Rightarrow> f32"
  printf_f2 :: "f32 \<Rightarrow> string"
  year :: "u32 \<Rightarrow> int"
  month :: "u32 \<Rightarrow> int"
  day :: "u32 \<Rightarrow> int"
  hour :: "u32 \<Rightarrow> int"
  minute :: "u32 \<Rightarrow> int"

section \<open>Program state and observable effects\<close>

text \<open>
  The globals of \<^verbatim>\<open>main.cpp\<close> that the modelled functions read or write, and the two
  function-local statics of \<^verbatim>\<open>loop\<close>. \<open>statics_init\<close> records whether the statics have
  been initialised (C++ initialises them when \<^verbatim>\<open>loop\<close> first runs).
\<close>

record state =
  wifiMac :: string
  energyToday :: u32
  energyTodayLastUpdate :: u32
  energyTodayLastPublished :: u32
  inverterStatus :: string
  statics_init :: bool
  nextUpdateTime :: u32
  nextStatsTime :: u32

text \<open>
  What the program does to its collaborators, in order. An event records the call; the
  program ignores the results of \<^verbatim>\<open>publish\<close>, of the LED and of the delay. \<open>MqttPublish\<close>
  carries topic, payload and the retained flag, \<open>MqttConnect\<close> the client id, \<open>HttpPost\<close>
  the body, \<open>LoopDelay\<close> the milliseconds of \<^verbatim>\<open>runLoopDelay\<close>. Serial logging (\<^verbatim>\<open>log\<close>,
  \<^verbatim>\<open>logInverterState\<close>) writes no state and is left out.
\<close>

datatype event =
    MqttConnect string
  | MqttPublish string string bool
  | HttpPost string
  | InverterWriteTimeDate u32
  | LedFlashFast int
  | LoopDelay nat

section \<open>Time\<close>

definition toLocalTime :: "config \<Rightarrow> u32 \<Rightarrow> u32" where
  "toLocalTime cfg t = t + NTP_OFFSET cfg"

definition fromLocalTime :: "config \<Rightarrow> u32 \<Rightarrow> u32" where
  "fromLocalTime cfg t = t - NTP_OFFSET cfg"

text \<open>The argument is what \<^verbatim>\<open>timeClient.getEpochTime()\<close> returned.\<close>

definition getEpochTime :: "config \<Rightarrow> u32 \<Rightarrow> u32" where
  "getEpochTime cfg ntp = fromLocalTime cfg ntp"

definition formatFloat :: "platform \<Rightarrow> nat \<Rightarrow> f32 \<Rightarrow> string" where
  \<comment> \<open>\<^verbatim>\<open>_formatFloat\<close>; \<open>bufLen\<close> is at least 2 at every call (it is 20).
      \<^verbatim>\<open>snprintf\<close> with size \<open>bufLen - 1\<close> writes at most \<open>bufLen - 2\<close> characters.\<close>
  "formatFloat pf bufLen val =
     (if isnan val then take (bufLen - 1) ''NaN''
      else take (bufLen - 2) (printf_f2 pf val))"

section \<open>MQTT\<close>

definition mqttTopicLwt :: string where "mqttTopicLwt = ''tele/%s/LWT''"
definition mqttTopicStat :: string where "mqttTopicStat = ''tele/%s/STAT''"
definition mqttTopicPower :: string where "mqttTopicPower = ''tele/%s/POWER''"
definition mqttTopicLog :: string where "mqttTopicLog = ''tele/%s/LOG''"
definition mqttMessageOnline :: string where "mqttMessageOnline = ''Online''"
definition mqttMessageOffline :: string where "mqttMessageOffline = ''Offline''"

definition mqttTopic :: "config \<Rightarrow> string \<Rightarrow> string" where
  \<comment> \<open>\<^verbatim>\<open>snprintf\<close> into the 64-byte buffer with size 63: at most 62 characters.\<close>
  "mqttTopic cfg topicFmt = take 62 (printf_s topicFmt [MQTT_TOPIC cfg])"

text \<open>
  \<^verbatim>\<open>mqttConnectCheck\<close>: \<open>connected\<close> is what \<^verbatim>\<open>mqttConnected()\<close> answers on entry, and the
  list holds the results of the successive \<^verbatim>\<open>pubSubClient.connect\<close> calls; after a call the
  client reports the state that call returned. The loop has no bound of its own: when the
  list ends before a connect succeeds the function has not returned (\<open>None\<close>).
\<close>

fun mqttConnectCheck :: "config \<Rightarrow> state \<Rightarrow> bool \<Rightarrow> bool list \<Rightarrow> event list option" where
  "mqttConnectCheck cfg s True outcomes = Some []"
| "mqttConnectCheck cfg s False [] = None"
| "mqttConnectCheck cfg s False (ok # outcomes) =
     (let clientId = take 62 (printf_s ''%s-%s'' [MQTT_TOPIC cfg, wifiMac s]);
          willTopic = mqttTopic cfg mqttTopicLwt
      in if ok then
           map_option (\<lambda>evs. [MqttConnect clientId, MqttPublish willTopic mqttMessageOnline True] @ evs)
             (mqttConnectCheck cfg s True outcomes)
         else
           map_option (\<lambda>evs. [MqttConnect clientId, LoopDelay 60000] @ evs)
             (mqttConnectCheck cfg s False outcomes))"

text \<open>
  \<^verbatim>\<open>mqttSend\<close>; \<open>waitForConnection\<close> defaults to false in the source, and no call passes
  another value.
\<close>

definition mqttSend ::
  "config \<Rightarrow> state \<Rightarrow> string \<Rightarrow> string \<Rightarrow> bool \<Rightarrow> bool \<Rightarrow> bool list \<Rightarrow> event list option" where
  "mqttSend cfg s topic_fmt msg waitForConnection connected outcomes =
     (case (if waitForConnection then mqttConnectCheck cfg s connected outcomes else Some []) of
        None \<Rightarrow> None
      | Some evs \<Rightarrow> Some (evs @ [MqttPublish (mqttTopic cfg topic_fmt) msg False]))"

text \<open>
  \<^verbatim>\<open>mqttLog\<close>: \<open>connected\<close> is the answer of \<^verbatim>\<open>mqttConnected()\<close>, \<open>text\<close> the expansion of
  the format; \<^verbatim>\<open>vsnprintf\<close> with size 1023 keeps at most 1022 characters of it.
\<close>

definition mqttLog :: "config \<Rightarrow> bool \<Rightarrow> string \<Rightarrow> event list" where
  "mqttLog cfg connected text =
     (if connected then [MqttPublish (mqttTopic cfg mqttTopicLog) (take 1022 text) False]
      else [])"

section \<open>Inverter reads\<close>

text \<open>
  The answers of the Aurora library (outside the repository) are inputs: the
  \<^verbatim>\<open>state.readState\<close> flag of a transaction and the value it carries.
\<close>

record energy_read =
  ce_readState :: bool
  ce_energy :: u32

record dsp_read =
  dsp_readState :: bool
  dsp_value :: f32

definition inverterOnline :: "bool \<Rightarrow> bool" where
  \<comment> \<open>the argument is \<^verbatim>\<open>inverter.readState().state.readState\<close>\<close>
  "inverterOnline dataState_readState = dataState_readState"

definition inverterReadDSP :: "dsp_read \<Rightarrow> f32" where
  "inverterReadDSP dataDSP = (if \<not> dsp_readState dataDSP then NAN else dsp_value dataDSP)"

record today_in =
  te_ntp :: u32
  te_read :: energy_read
  te_connected :: bool

definition inverterReadTodayEnergy :: "config \<Rightarrow> today_in \<Rightarrow> state \<Rightarrow> bool \<times> state \<times> event list" where
  "inverterReadTodayEnergy cfg inp s =
     (let now = getEpochTime cfg (te_ntp inp);
          cumulatedEnergy = te_read inp
      in if \<not> ce_readState cumulatedEnergy then (False, s, [])
         else
           let s' = s\<lparr>energyToday := ce_energy cumulatedEnergy, energyTodayLastUpdate := now\<rparr>
           in (True, s',
               mqttLog cfg (te_connected inp)
                 (''updated Today'' @ [CHR 0x27] @ ''s energy: '' @ fmt_lu (energyTodayLastUpdate s')
                  @ '' ('' @ fmt_lu (toLocalTime cfg now) @ '') = '' @ fmt_lu (energyToday s'))))"

text \<open>
  \<^verbatim>\<open>inverterSetTime\<close>: the clock read before the write is only logged, so it is no input.
\<close>

record settime_in =
  st_ntp :: u32
  st_write_ok :: bool

definition inverterSetTime :: "config \<Rightarrow> settime_in \<Rightarrow> bool \<times> event list" where
  "inverterSetTime cfg inp =
     (let newEpochLocalTime = toLocalTime cfg (getEpochTime cfg (st_ntp inp))
      in (st_write_ok inp, [InverterWriteTimeDate newEpochLocalTime]))"

section \<open>The stats cycle\<close>

record stats_in =
  us_ntp :: u32
  us_online :: bool
  us_daily :: energy_read
  us_lifetime :: energy_read
  us_pin1 :: dsp_read
  us_pin2 :: dsp_read
  us_vgrid :: dsp_read
  us_fgrid :: dsp_read
  us_temp_inverter :: dsp_read
  us_temp_booster :: dsp_read
  us_connected :: bool

text \<open>The local variables of \<^verbatim>\<open>inverterUpdateStatus\<close> once all reads are done.\<close>

record status_locals =
  l_now :: u32
  l_energyToday :: u32
  l_energyLifetime :: u32
  l_pIn1 :: f32
  l_pIn2 :: f32
  l_pIn :: f32
  l_vGrid :: f32
  l_fGrid :: f32
  l_tempInverter :: f32
  l_tempBooster :: f32

definition inverterUpdateStatus_reads :: "config \<Rightarrow> platform \<Rightarrow> stats_in \<Rightarrow> status_locals" where
  "inverterUpdateStatus_reads cfg pf inp =
     (let pIn1 = inverterReadDSP (us_pin1 inp);
          pIn2 = inverterReadDSP (us_pin2 inp)
      in \<lparr>l_now = getEpochTime cfg (us_ntp inp),
          l_energyToday = (if \<not> ce_readState (us_daily inp) then 0 else ce_energy (us_daily inp)),
          l_energyLifetime =
            (if \<not> ce_readState (us_lifetime inp) then 0 else ce_energy (us_lifetime inp)),
          l_pIn1 = pIn1,
          l_pIn2 = pIn2,
          l_pIn = (if \<not> isnan pIn1 \<and> \<not> isnan pIn2 then fadd pf pIn1 pIn2 else NAN),
          l_vGrid = inverterReadDSP (us_vgrid inp),
          l_fGrid = inverterReadDSP (us_fgrid inp),
          l_tempInverter = inverterReadDSP (us_temp_inverter inp),
          l_tempBooster = inverterReadDSP (us_temp_booster inp)\<rparr>)"

text \<open>
  The \<^verbatim>\<open>snprintf\<close> into \<^verbatim>\<open>inverterStatus\<close> (2048 bytes, so at most 2047 characters); the
  two report timestamps come from the globals.
\<close>

definition inverterUpdateStatus_format :: "platform \<Rightarrow> state \<Rightarrow> status_locals \<Rightarrow> string" where
  \<open>inverterUpdateStatus_format pf s l =
     take 2047
       (''{''
        @ ''"last_update": '' @ fmt_lu (l_now l) @ '', ''
        @ ''"energy_today": '' @ fmt_lu (l_energyToday l) @ '', ''
        @ ''"energy_total": '' @ fmt_lu (l_energyLifetime l) @ '', ''
        @ ''"last_pvoutput_read": '' @ fmt_lu (energyTodayLastUpdate s) @ '', ''
        @ ''"last_pvoutput_sent": '' @ fmt_lu (energyTodayLastPublished s) @ '', ''
        @ ''"p_in": '' @ formatFloat pf 20 (l_pIn l) @ '', ''
        @ ''"p_in_1": '' @ formatFloat pf 20 (l_pIn1 l) @ '', ''
        @ ''"p_in_2": '' @ formatFloat pf 20 (l_pIn2 l) @ '', ''
        @ ''"grid_voltage": '' @ formatFloat pf 20 (l_vGrid l) @ '', ''
        @ ''"grid_frequency": '' @ formatFloat pf 20 (l_fGrid l) @ '', ''
        @ ''"temp_inverter": '' @ formatFloat pf 20 (l_tempInverter l) @ '', ''
        @ ''"temp_booster": '' @ formatFloat pf 20 (l_tempBooster l)
        @ ''}'')\<close>

definition inverterUpdateStatus ::
  "config \<Rightarrow> platform \<Rightarrow> stats_in \<Rightarrow> state \<Rightarrow> (state \<times> event list) option" where
  "inverterUpdateStatus cfg pf inp s =
     (if \<not> inverterOnline (us_online inp) then Some (s, [])
      else
        let l = inverterUpdateStatus_reads cfg pf inp;
            s' = s\<lparr>inverterStatus := inverterUpdateStatus_format pf s l\<rparr>
        in if us_connected inp then
             (case (if \<not> isnan (l_pIn l)
                    then mqttSend cfg s' mqttTopicPower (formatFloat pf 20 (l_pIn l)) False
                           (us_connected inp) []
                    else Some []) of
                None \<Rightarrow> None
              | Some evs_power \<Rightarrow>
                  (case mqttSend cfg s' mqttTopicStat (inverterStatus s') False
                          (us_connected inp) [] of
                     None \<Rightarrow> None
                   | Some evs_stat \<Rightarrow> Some (s', evs_power @ evs_stat)))
           else Some (s', []))"

section \<open>The cloud report\<close>

record pv_in =
  pv_begin_ok :: bool
  pv_httpCode :: int
  pv_errorString :: string
  pv_connected :: bool
  pv_ntp :: u32

definition pvOutputSend_post_data :: "config \<Rightarrow> platform \<Rightarrow> state \<Rightarrow> string" where
  \<comment> \<open>\<^verbatim>\<open>post_data\<close> has 512 bytes: at most 511 characters\<close>
  "pvOutputSend_post_data cfg pf s =
     (let timeLocal = toLocalTime cfg (energyTodayLastUpdate s)
      in take 511
           (''d='' @ fmt_0d 4 (year pf timeLocal) @ fmt_0d 2 (month pf timeLocal)
              @ fmt_0d 2 (day pf timeLocal) @ ''&''
            @ ''t='' @ fmt_0d 2 (hour pf timeLocal) @ '':'' @ fmt_0d 2 (minute pf timeLocal) @ ''&''
            @ ''v1='' @ fmt_lu (energyToday s) @ ''&c1=0''))"

text \<open>
  \<^verbatim>\<open>pvOutputSend\<close>: \<open>pv_begin_ok\<close> is the result of \<^verbatim>\<open>http.begin\<close>, \<open>pv_httpCode\<close> that of
  \<^verbatim>\<open>http.POST\<close> (not positive for a transport error), \<open>pv_errorString\<close> what
  \<^verbatim>\<open>http.errorToString\<close> gives for it. The URL and the three headers are constants.
\<close>

definition pvOutputSend :: "config \<Rightarrow> platform \<Rightarrow> pv_in \<Rightarrow> state \<Rightarrow> bool \<times> state \<times> event list" where
  "pvOutputSend cfg pf inp s =
     (let post_data = pvOutputSend_post_data cfg pf s
      in if \<not> pv_begin_ok inp then (False, s, [])
         else
           let httpCode = pv_httpCode inp;
               evs = HttpPost post_data #
                 (if httpCode > 0 then
                    mqttLog cfg (pv_connected inp)
                      (''PV Output update ('' @ post_data @ '') returned '' @ fmt_d httpCode
                       @ [CHR 0x0A])
                  else
                    mqttLog cfg (pv_connected inp)
                      (''PV Output update ('' @ post_data @ '') error '' @ pv_errorString inp
                       @ [CHR 0x0A]))
           in if httpCode = 200
              then (True, s\<lparr>energyTodayLastPublished := getEpochTime cfg (pv_ntp inp)\<rparr>, evs)
              else (False, s, evs))"

section \<open>The main loop\<close>

record loop_in =
  li_ntp_init_update :: u32
  li_ntp_init_stats :: u32
  li_ntp_update :: u32
  li_setTime :: settime_in
  li_today :: today_in
  li_ntp_stats :: u32
  li_stats :: stats_in
  li_wifi_connected :: bool
  li_pv :: pv_in

text \<open>
  The initialiser of the two statics: \<open>period\<close> is the macro, \<open>now\<close> the result of
  \<^verbatim>\<open>getEpochTime()\<close>, all in 32-bit unsigned arithmetic.
\<close>

definition first_deadline :: "u32 \<Rightarrow> u32 \<Rightarrow> u32" where
  "first_deadline period now = (now div period) * period + period"

text \<open>
  The statics are initialised when \<^verbatim>\<open>loop\<close> runs for the first time. A period of zero
  makes the initialiser divide by zero, which the model reports as \<open>None\<close>.
\<close>

definition loop_statics :: "config \<Rightarrow> loop_in \<Rightarrow> state \<Rightarrow> state option" where
  "loop_statics cfg inp s =
     (if statics_init s then Some s
      else if UPDATE_PERIOD_PVOUTPUT cfg = 0 \<or> UPDATE_PERIOD_STATS cfg = 0 then None
      else Some (s\<lparr>statics_init := True,
                   nextUpdateTime :=
                     first_deadline (UPDATE_PERIOD_PVOUTPUT cfg)
                       (getEpochTime cfg (li_ntp_init_update inp)),
                   nextStatsTime :=
                     first_deadline (UPDATE_PERIOD_STATS cfg)
                       (getEpochTime cfg (li_ntp_init_stats inp))\<rparr>))"

text \<open>
  The energy window of \<^verbatim>\<open>loop\<close>; the first component is the value of the local
  \<^verbatim>\<open>pvOutputUpdatePending\<close> afterwards, which enters as \<open>pending\<close>.
\<close>

definition loop_update :: "config \<Rightarrow> loop_in \<Rightarrow> bool \<Rightarrow> state \<Rightarrow> bool \<times> state \<times> event list" where
  "loop_update cfg inp pending s =
     (if nextUpdateTime s \<le> getEpochTime cfg (li_ntp_update inp) then
        let (set_ok, evs_set) = inverterSetTime cfg (li_setTime inp);
            (read_ok, s1, evs_read) = inverterReadTodayEnergy cfg (li_today inp) s
        in (if read_ok then True else pending,
            s1\<lparr>nextUpdateTime := nextUpdateTime s1 + UPDATE_PERIOD_PVOUTPUT cfg\<rparr>,
            evs_set @ evs_read @ [LedFlashFast (if read_ok then 1 else 4)])
      else (pending, s, []))"

definition loop_stats ::
  "config \<Rightarrow> platform \<Rightarrow> loop_in \<Rightarrow> state \<Rightarrow> (state \<times> event list) option" where
  "loop_stats cfg pf inp s =
     (if nextStatsTime s \<le> getEpochTime cfg (li_ntp_stats inp) then
        (case inverterUpdateStatus cfg pf (li_stats inp) s of
           None \<Rightarrow> None
         | Some (s1, evs) \<Rightarrow>
             Some (s1\<lparr>nextStatsTime := nextStatsTime s1 + UPDATE_PERIOD_STATS cfg\<rparr>,
                   evs @ [LedFlashFast 1]))
      else Some (s, []))"

definition loop_send ::
  "config \<Rightarrow> platform \<Rightarrow> loop_in \<Rightarrow> bool \<Rightarrow> state \<Rightarrow> bool \<times> state \<times> event list" where
  "loop_send cfg pf inp pending s =
     (if pending then
        if li_wifi_connected inp then
          let (sent, s1, evs) = pvOutputSend cfg pf (li_pv inp) s
          in if sent then (False, s1, evs @ [LedFlashFast 2])
             else (pending, s1, evs @ [LedFlashFast 5, LoopDelay 1000])
        else (pending, s, [])
      else (pending, s, []))"

text \<open>
  One call of \<^verbatim>\<open>loop\<close>. \<^verbatim>\<open>pvOutputUpdatePending\<close> is a plain local: it starts as false in
  every call and its last value is dropped when the call returns. \<^verbatim>\<open>runLoopHandlers\<close>
  only pumps the libraries and is left out.
\<close>

definition loop :: "config \<Rightarrow> platform \<Rightarrow> loop_in \<Rightarrow> state \<Rightarrow> (state \<times> event list) option" where
  "loop cfg pf inp s =
     (case loop_statics cfg inp s of
        None \<Rightarrow> None
      | Some s0 \<Rightarrow>
          let pvOutputUpdatePending = False;
              (pending1, s1, evs1) = loop_update cfg inp pvOutputUpdatePending s0
          in (case loop_stats cfg pf inp s1 of
                None \<Rightarrow> None
              | Some (s2, evs2) \<Rightarrow>
                  let (pending3, s3, evs3) = loop_send cfg pf inp pending1 s2
                  in Some (s3, evs1 @ evs2 @ evs3)))"

text \<open>Successive calls of \<^verbatim>\<open>loop\<close>, one input record per call.\<close>

fun loops :: "config \<Rightarrow> platform \<Rightarrow> loop_in list \<Rightarrow> state \<Rightarrow> (state \<times> event list) option" where
  "loops cfg pf [] s = Some (s, [])"
| "loops cfg pf (inp # inps) s =
     (case loop cfg pf inp s of
        None \<Rightarrow> None
      | Some (s1, evs1) \<Rightarrow>
          (case loops cfg pf inps s1 of
             None \<Rightarrow> None
           | Some (s2, evs2) \<Rightarrow> Some (s2, evs1 @ evs2)))"

section \<open>A reference platform\<close>

text \<open>
  One instance of \<open>platform\<close>, used where a concrete run of the program is evaluated:
  IEEE-754 binary32 addition with round-to-nearest-even, \<^verbatim>\<open>%.2f\<close> with correct rounding,
  and the calendar of TimeLib's \<^verbatim>\<open>breakTime\<close> (days since 1970 in the Gregorian calendar).
  A finite float is a whole number of units of \<open>2\<^sup>-\<^sup>1\<^sup>4\<^sup>9\<close>.
\<close>

definition f32_negative :: "f32 \<Rightarrow> bool" where
  "f32_negative v = bit v 31"

definition f32_magnitude :: "f32 \<Rightarrow> nat" where
  "f32_magnitude v = unat (v AND 0x7FFFFFFF)"

definition f32_units :: "f32 \<Rightarrow> nat" where
  "f32_units v =
     (let e = f32_magnitude v div 2 ^ 23; m = f32_magnitude v mod 2 ^ 23
      in if e = 0 then m else (2 ^ 23 + m) * 2 ^ (e - 1))"

fun bitlen :: "nat \<Rightarrow> nat" where
  "bitlen n = (if n = 0 then 0 else Suc (bitlen (n div 2)))"

declare bitlen.simps [simp del]

text \<open>\<open>a / 2 ^ sh\<close> rounded to the nearest natural number, ties to the even one.\<close>

definition round_half_even :: "nat \<Rightarrow> nat \<Rightarrow> nat" where
  "round_half_even a sh =
     (let q = a div 2 ^ sh; r = a mod 2 ^ sh
      in if 2 ^ sh < 2 * r \<or> (2 * r = 2 ^ sh \<and> odd q) then q + 1 else q)"

definition f32_of_units :: "nat \<Rightarrow> nat" where
  "f32_of_units a =
     (let sh = bitlen a - 24; q = round_half_even a sh
      in min (sh * 2 ^ 23 + q) 0x7F800000)"

definition ieee_add :: "f32 \<Rightarrow> f32 \<Rightarrow> f32" where
  "ieee_add a b =
     (if isnan a \<or> isnan b then NAN
      else if f32_magnitude a = 0x7F800000 then
        (if f32_magnitude b = 0x7F800000 \<and> f32_negative a \<noteq> f32_negative b then NAN else a)
      else if f32_magnitude b = 0x7F800000 then b
      else
        let k = (if f32_negative a then - int (f32_units a) else int (f32_units a))
              + (if f32_negative b then - int (f32_units b) else int (f32_units b))
        in if k = 0 then (if f32_negative a \<and> f32_negative b then 0x80000000 else 0)
           else (if k < 0 then 0x80000000 else 0) OR word_of_nat (f32_of_units (nat \<bar>k\<bar>)))"

definition ieee_printf_f2 :: "f32 \<Rightarrow> string" where
  "ieee_printf_f2 v =
     (if isnan v then ''nan''
      else (if f32_negative v then ''-'' else []) @
        (if f32_magnitude v = 0x7F800000 then ''inf''
         else let n = round_half_even (100 * f32_units v) 149
              in dec (n div 100) @ ''.'' @ fmt_0d 2 (int (n mod 100))))"

definition LEAP_YEAR :: "nat \<Rightarrow> bool" where
  "LEAP_YEAR Y = ((1970 + Y) mod 4 = 0 \<and> ((1970 + Y) mod 100 \<noteq> 0 \<or> (1970 + Y) mod 400 = 0))"

function year_loop :: "nat \<Rightarrow> nat \<Rightarrow> nat \<Rightarrow> nat \<times> nat" where
  "year_loop y days time =
     (let days' = days + (if LEAP_YEAR y then 366 else 365)
      in if days' \<le> time then year_loop (Suc y) days' time else (y, days'))"
  by pat_completeness auto
termination
  by (relation "measure (\<lambda>(y, days, time). time + 366 - days)") (auto split: if_splits)

declare year_loop.simps [simp del]

fun month_loop :: "nat list \<Rightarrow> nat \<Rightarrow> nat \<Rightarrow> nat \<times> nat" where
  "month_loop [] m t = (m, t)"
| "month_loop (monthLength # rest) m t =
     (if monthLength \<le> t then month_loop rest (Suc m) (t - monthLength) else (m, t))"

text \<open>\<^verbatim>\<open>breakTime\<close>: year, month and day of month of a time in seconds.\<close>

definition breakTime :: "u32 \<Rightarrow> nat \<times> nat \<times> nat" where
  "breakTime t =
     (let time = unat t div 86400;
          (y, days) = year_loop 0 0 time;
          time' = time - (days - (if LEAP_YEAR y then 366 else 365));
          (m, d) = month_loop
                     [31, if LEAP_YEAR y then 29 else 28, 31, 30, 31, 30, 31, 31, 30, 31, 30, 31]
                     0 time'
      in (1970 + y, m + 1, d + 1))"

definition reference_platform :: platform where
  "reference_platform =
     \<lparr>fadd = ieee_add,
      printf_f2 = ieee_printf_f2,
      year = (\<lambda>t. int (fst (breakTime t))),
      month = (\<lambda>t. int (fst (snd (breakTime t)))),
      day = (\<lambda>t. int (snd (snd (breakTime t)))),
      hour = (\<lambda>t. int (unat t div 3600 mod 24)),
      minute = (\<lambda>t. int (unat t div 60 mod 60))\<rparr>"

section \<open>Sample runs\<close>

text \<open>Concrete inputs on which the theorems below are evaluated.\<close>

definition sample_config :: config where
  "sample_config = default_config ''abb''"

definition boot_state :: state where
  "boot_state =
     \<lparr>wifiMac = ''a1b2c3d4e5f6'', energyToday = 0, energyTodayLastUpdate = 0,
      energyTodayLastPublished = 0, inverterStatus = ''{}'', statics_init = False,
      nextUpdateTime = 0, nextStatsTime = 0\<rparr>"

definition failed_energy :: energy_read where
  "failed_energy = \<lparr>ce_readState = False, ce_energy = 0\<rparr>"

definition failed_dsp :: dsp_read where
  "failed_dsp = \<lparr>dsp_readState = False, dsp_value = 0\<rparr>"

text \<open>The inverter does not answer the liveness probe.\<close>

definition stats_offline :: stats_in where
  "stats_offline =
     \<lparr>us_ntp = 1200, us_online = False, us_daily = failed_energy, us_lifetime = failed_energy,
      us_pin1 = failed_dsp, us_pin2 = failed_dsp, us_vgrid = failed_dsp, us_fgrid = failed_dsp,
      us_temp_inverter = failed_dsp, us_temp_booster = failed_dsp, us_connected = True\<rparr>"

text \<open>
  Every read succeeds: 4200 Wh today, 123456 Wh lifetime, string powers 1500.0 and 1200.5,
  240.0 V, 50.0 Hz, 40.0 and 35.5 degrees.
\<close>

definition stats_full :: stats_in where
  "stats_full =
     \<lparr>us_ntp = 1200, us_online = True,
      us_daily = \<lparr>ce_readState = True, ce_energy = 4200\<rparr>,
      us_lifetime = \<lparr>ce_readState = True, ce_energy = 123456\<rparr>,
      us_pin1 = \<lparr>dsp_readState = True, dsp_value = 0x44BB8000\<rparr>,
      us_pin2 = \<lparr>dsp_readState = True, dsp_value = 0x44961000\<rparr>,
      us_vgrid = \<lparr>dsp_readState = True, dsp_value = 0x43700000\<rparr>,
      us_fgrid = \<lparr>dsp_readState = True, dsp_value = 0x42480000\<rparr>,
      us_temp_inverter = \<lparr>dsp_readState = True, dsp_value = 0x42200000\<rparr>,
      us_temp_booster = \<lparr>dsp_readState = True, dsp_value = 0x420E0000\<rparr>,
      us_connected = True\<rparr>"

text \<open>
  The inverter is online, but the read of today's energy and the read of the second
  string power fail.
\<close>

definition stats_partial :: stats_in where
  "stats_partial =
     stats_full\<lparr>us_daily := failed_energy, us_pin2 := failed_dsp\<rparr>"

text \<open>A state in which an earlier cycle has stored a snapshot and a reading of 4200 Wh
  taken at epoch 50000.\<close>

definition running_state :: state where
  \<open>running_state =
     boot_state\<lparr>energyToday := 4200, energyTodayLastUpdate := 50000,
       inverterStatus := ''{"energy_today": 4100}'', statics_init := True,
       nextUpdateTime := 50100, nextStatsTime := 50010\<rparr>\<close>

definition pv_answer :: "int \<Rightarrow> pv_in" where
  "pv_answer code =
     \<lparr>pv_begin_ok = True, pv_httpCode = code, pv_errorString = [], pv_connected = False,
      pv_ntp = 1201\<rparr>"

text \<open>
  A call of \<^verbatim>\<open>loop\<close> at epoch \<open>t\<close>: the inverter accepts the clock and answers the energy
  read with 4200 Wh, does not answer the liveness probe of the stats cycle, the broker is
  disconnected, WiFi is connected and the report endpoint answers with status \<open>code\<close>.
\<close>

definition tick :: "u32 \<Rightarrow> int \<Rightarrow> loop_in" where
  "tick t code =
     \<lparr>li_ntp_init_update = t, li_ntp_init_stats = t, li_ntp_update = t,
      li_setTime = \<lparr>st_ntp = t, st_write_ok = True\<rparr>,
      li_today = \<lparr>te_ntp = t, te_read = \<lparr>ce_readState = True, ce_energy = 4200\<rparr>,
                  te_connected = False\<rparr>,
      li_ntp_stats = t,
      li_stats = stats_offline\<lparr>us_ntp := t, us_connected := False\<rparr>,
      li_wifi_connected = True,
      li_pv = (pv_answer code)\<lparr>pv_ntp := t\<rparr>\<rparr>"

section \<open>Properties of the formatting functions\<close>

lemma length_dec_le: "0 < k \<Longrightarrow> n < 10 ^ k \<Longrightarrow> length (dec n) \<le> k"
proof (induction n arbitrary: k rule: dec.induct)
  case (1 n)
  show ?case
  proof (cases "n < 10")
    case True
    with "1.prems" show ?thesis by (simp add: dec.simps [of n])
  next
    case False
    define j where "j = k - 1"
    from "1.prems" have k: "k = Suc j" by (simp add: j_def)
    have j: "0 < j"
    proof (rule ccontr)
      assume "\<not> 0 < j"
      with k "1.prems" False show False by simp
    qed
    from "1.prems" k have "n div 10 < 10 ^ j"
      by (simp add: less_mult_imp_div_less mult.commute)
    with "1.IH" [of j] False j have "length (dec (n div 10)) \<le> j" by simp
    with False k show ?thesis by (simp add: dec.simps [of n])
  qed
qed


lemma length_fmt_lu: "length (fmt_lu w) \<le> 10"
proof -
  have "unat w < 2 ^ 32" using unsigned_less [of w] by simp
  then have "unat w < 10 ^ 10" by simp
  then show ?thesis unfolding fmt_lu_def by (intro length_dec_le) simp_all
qed

lemma length_formatFloat: "length (formatFloat pf 20 v) \<le> 18"
  by (simp add: formatFloat_def)



lemma mqttSend_nowait:
  "mqttSend cfg s topic_fmt msg False connected outcomes =
     Some [MqttPublish (mqttTopic cfg topic_fmt) msg False]"
  by (simp add: mqttSend_def)

section \<open>Evaluation lemmas for the sample runs\<close>


lemma reference_platform_fields:
  "fadd reference_platform = ieee_add"
  "printf_f2 reference_platform = ieee_printf_f2"
  "year reference_platform t = int (fst (breakTime t))"
  "month reference_platform t = int (fst (snd (breakTime t)))"
  "day reference_platform t = int (snd (snd (breakTime t)))"
  "hour reference_platform t = int (unat t div 3600 mod 24)"
  "minute reference_platform t = int (unat t div 60 mod 60)"
  by (simp_all add: reference_platform_def)

lemma isnan_NAN: "isnan NAN"
  by (simp add: isnan_def NAN_def)

lemma sample_not_nan:
  "\<not> isnan 0x44BB8000" "\<not> isnan 0x44961000" "\<not> isnan 0x4528C800" "\<not> isnan 0x43700000"
  "\<not> isnan 0x42480000" "\<not> isnan 0x42200000" "\<not> isnan 0x420E0000"
  by (simp_all add: isnan_def)

lemma sample_sum: "ieee_add 0x44BB8000 0x44961000 = 0x4528C800"
  by (simp add: ieee_add_def isnan_def f32_units_def f32_magnitude_def f32_negative_def
      f32_of_units_def round_half_even_def Let_def bitlen.simps)

lemma sample_hundredths:
  "round_half_even (100 * f32_units 0x4528C800) 149 = 270050"
  "round_half_even (100 * f32_units 0x44BB8000) 149 = 150000"
  "round_half_even (100 * f32_units 0x44961000) 149 = 120050"
  "round_half_even (100 * f32_units 0x43700000) 149 = 24000"
  "round_half_even (100 * f32_units 0x42480000) 149 = 5000"
  "round_half_even (100 * f32_units 0x42200000) 149 = 4000"
  "round_half_even (100 * f32_units 0x420E0000) 149 = 3550"
  by (simp_all add: f32_units_def f32_magnitude_def round_half_even_def Let_def)

lemma sample_printf_f2:
  "ieee_printf_f2 0x4528C800 = ''2700.50''"
  "ieee_printf_f2 0x44BB8000 = ''1500.00''"
  "ieee_printf_f2 0x44961000 = ''1200.50''"
  "ieee_printf_f2 0x43700000 = ''240.00''"
  "ieee_printf_f2 0x42480000 = ''50.00''"
  "ieee_printf_f2 0x42200000 = ''40.00''"
  "ieee_printf_f2 0x420E0000 = ''35.50''"
  by (simp_all add: ieee_printf_f2_def isnan_def f32_negative_def f32_magnitude_def
      sample_hundredths dec.simps fmt_0d_def Let_def)

lemma sample_fmt_lu:
  "fmt_lu 0 = ''0''" "fmt_lu 1200 = ''1200''" "fmt_lu 4200 = ''4200''"
  "fmt_lu 50000 = ''50000''" "fmt_lu 123456 = ''123456''"
  by (simp_all add: fmt_lu_def dec.simps)

lemma sample_topics:
  "mqttTopic sample_config mqttTopicStat = ''tele/abb/STAT''"
  "mqttTopic sample_config mqttTopicPower = ''tele/abb/POWER''"
  "mqttTopic sample_config mqttTopicLog = ''tele/abb/LOG''"
  by (simp_all add: mqttTopic_def sample_config_def default_config_def mqttTopicStat_def
      mqttTopicPower_def mqttTopicLog_def)

lemma sample_format_full:
  \<open>inverterUpdateStatus_format reference_platform running_state
     (inverterUpdateStatus_reads sample_config reference_platform stats_full) =
   ''{"last_update": 1200, "energy_today": 4200, "energy_total": 123456, "last_pvoutput_read": 50000, "last_pvoutput_sent": 0, "p_in": 2700.50, "p_in_1": 1500.00, "p_in_2": 1200.50, "grid_voltage": 240.00, "grid_frequency": 50.00, "temp_inverter": 40.00, "temp_booster": 35.50}''\<close>
  by (simp add: inverterUpdateStatus_format_def inverterUpdateStatus_reads_def stats_full_def
      running_state_def boot_state_def sample_config_def default_config_def
      reference_platform_fields inverterReadDSP_def formatFloat_def getEpochTime_def
      fromLocalTime_def sample_not_nan sample_sum sample_printf_f2 sample_fmt_lu)


lemma sample_pIn_full:
  "l_pIn (inverterUpdateStatus_reads sample_config reference_platform stats_full) = 0x4528C800"
  by (simp add: inverterUpdateStatus_reads_def stats_full_def reference_platform_fields
      inverterReadDSP_def sample_not_nan sample_sum)

section \<open>The stats cycle: skipping and publishing\<close>

text \<open>
  C7: a stats cycle whose liveness probe reports the inverter offline returns at once.
  The whole state, the snapshot \<open>inverterStatus\<close> with it, is what it was before the
  cycle, and no event is produced: neither the STAT nor the POWER message is published.
\<close>

theorem inverterUpdateStatus_offline:
  "\<not> us_online inp \<Longrightarrow> inverterUpdateStatus cfg pf inp s = Some (s, [])"
  by (simp add: inverterUpdateStatus_def inverterOnline_def)

theorem inverterUpdateStatus_offline_witness:
  "\<not> us_online stats_offline
   \<and> inverterUpdateStatus sample_config reference_platform stats_offline running_state
       = Some (running_state, [])"
  using inverterUpdateStatus_offline [of stats_offline sample_config reference_platform running_state]
  by (simp add: stats_offline_def)

text \<open>
  C10: a stats cycle that runs (inverter online) while the broker is connected stores the
  new snapshot and always publishes it on the STAT topic; the POWER message precedes it
  exactly when the derived total input power \<open>pIn\<close> is not NaN, and is left out otherwise.
\<close>

theorem inverterUpdateStatus_publishes:
  assumes "us_online inp" and "us_connected inp"
  shows "inverterUpdateStatus cfg pf inp s =
     Some (s\<lparr>inverterStatus :=
              inverterUpdateStatus_format pf s (inverterUpdateStatus_reads cfg pf inp)\<rparr>,
       (if isnan (l_pIn (inverterUpdateStatus_reads cfg pf inp)) then []
        else [MqttPublish (mqttTopic cfg mqttTopicPower)
                (formatFloat pf 20 (l_pIn (inverterUpdateStatus_reads cfg pf inp))) False])
       @ [MqttPublish (mqttTopic cfg mqttTopicStat)
            (inverterUpdateStatus_format pf s (inverterUpdateStatus_reads cfg pf inp)) False])"
  using assms
  by (simp add: inverterUpdateStatus_def inverterOnline_def mqttSend_nowait Let_def)

theorem inverterUpdateStatus_publishes_witness:
  \<open>us_online stats_full \<and> us_connected stats_full
   \<and> map_option snd
        (inverterUpdateStatus sample_config reference_platform stats_full running_state) =
      Some [MqttPublish ''tele/abb/POWER'' ''2700.50'' False,
            MqttPublish ''tele/abb/STAT'' ''{"last_update": 1200, "energy_today": 4200, "energy_total": 123456, "last_pvoutput_read": 50000, "last_pvoutput_sent": 0, "p_in": 2700.50, "p_in_1": 1500.00, "p_in_2": 1200.50, "grid_voltage": 240.00, "grid_frequency": 50.00, "temp_inverter": 40.00, "temp_booster": 35.50}'' False]\<close>
proof -
  have online: "us_online stats_full" and connected: "us_connected stats_full"
    by (simp_all add: stats_full_def)
  show ?thesis
    using inverterUpdateStatus_publishes
      [OF online connected, of sample_config reference_platform running_state]
    by (simp add: online connected sample_format_full sample_pIn_full sample_topics
        sample_not_nan formatFloat_def reference_platform_fields sample_printf_f2)
qed

section \<open>The cloud report\<close>

text \<open>
  C8: \<^verbatim>\<open>pvOutputSend\<close> returns true exactly when the connection could be set up and the
  POST answered with status 200. Then the only change to the state is that
  \<open>energyTodayLastPublished\<close> becomes the time read at that moment; on any other status
  and on a transport failure it returns false and the state, this timestamp with it,
  stays as it was.
\<close>

theorem pvOutputSend_success_iff_200:
  "fst (pvOutputSend cfg pf inp s) = (pv_begin_ok inp \<and> pv_httpCode inp = 200)
   \<and> fst (snd (pvOutputSend cfg pf inp s)) =
       (if pv_begin_ok inp \<and> pv_httpCode inp = 200
        then s\<lparr>energyTodayLastPublished := getEpochTime cfg (pv_ntp inp)\<rparr>
        else s)"
  by (simp add: pvOutputSend_def Let_def)

section \<open>Diagnostic log messages\<close>



section \<open>The two schedule windows\<close>

lemma first_deadline_unat:
  assumes "period \<noteq> 0"
    and "unat now div unat period * unat period + unat period < 2 ^ 32"
  shows "unat (first_deadline period now) = unat now div unat period * unat period + unat period"
proof -
  have d: "unat (now div period) = unat now div unat period"
    by (simp add: unat_div)
  from assms(2) have "unat (now div period) * unat period < 2 ^ LENGTH(32)"
    by (simp add: d)
  then have m: "unat (now div period * period) = unat now div unat period * unat period"
    by (simp add: unat_mult_lem [THEN iffD1] d)
  from assms(2) have "unat (now div period * period) + unat period < 2 ^ LENGTH(32)"
    by (simp add: m)
  then show ?thesis
    by (simp add: first_deadline_def unat_add_lem [THEN iffD1] m)
qed

lemma first_deadline_after:
  assumes "period \<noteq> 0"
    and "unat now div unat period * unat period + unat period < 2 ^ 32"
  shows "now < first_deadline period now"
proof -
  from assms(1) have p: "0 < unat period" by (simp add: unat_gt_0)
  from p have "unat now mod unat period < unat period"
    by simp
  with div_mult_mod_eq [of "unat now" "unat period"]
  have "unat now < unat now div unat period * unat period + unat period"
    by linarith
  then show ?thesis
    by (simp add: word_less_nat_alt first_deadline_unat [OF assms])
qed


lemma loop_statics_first_call:
  assumes "\<not> statics_init s"
    and "UPDATE_PERIOD_PVOUTPUT cfg \<noteq> 0" and "UPDATE_PERIOD_STATS cfg \<noteq> 0"
  shows "loop_statics cfg inp s =
     Some (s\<lparr>statics_init := True,
             nextUpdateTime :=
               first_deadline (UPDATE_PERIOD_PVOUTPUT cfg) (getEpochTime cfg (li_ntp_init_update inp)),
             nextStatsTime :=
               first_deadline (UPDATE_PERIOD_STATS cfg) (getEpochTime cfg (li_ntp_init_stats inp))\<rparr>)"
  using assms by (simp add: loop_statics_def)

text \<open>
  C4, as stated for every epoch, fails in 32-bit arithmetic: with the energy period 300 and
  the stats period 30, a first call at epoch 4294967295 sets the deadlines to 104 and 14.
  The energy deadline is no multiple of 300 and not after the current epoch.
\<close>

theorem first_deadline_wraps:
  "loop_statics sample_config (tick 4294967295 200) boot_state =
     Some (boot_state\<lparr>statics_init := True, nextUpdateTime := 104, nextStatsTime := 14\<rparr>)
   \<and> getEpochTime sample_config (li_ntp_init_update (tick 4294967295 200)) = 4294967295
   \<and> unat (104 :: u32) mod unat (UPDATE_PERIOD_PVOUTPUT sample_config) \<noteq> 0
   \<and> \<not> (4294967295 :: u32) < 104"
  by (simp add: loop_statics_def sample_config_def default_config_def tick_def boot_state_def
      first_deadline_def getEpochTime_def fromLocalTime_def)

text \<open>
  C4, amended: for periods that are not zero, and every epoch for which
  \<open>floor (epoch / period) * period + period\<close> is below \<open>2\<^sup>3\<^sup>2\<close>, the first call of \<^verbatim>\<open>loop\<close>
  sets each deadline to exactly that number: a multiple of the period and strictly after
  the epoch. With periods 300 and 30 at epoch 1000 the deadlines are 1200 and 1020.
\<close>

theorem loop_statics_deadlines:
  assumes "\<not> statics_init s"
    and "UPDATE_PERIOD_PVOUTPUT cfg \<noteq> 0" and "UPDATE_PERIOD_STATS cfg \<noteq> 0"
  shows "\<exists>s'. loop_statics cfg inp s = Some s'
     \<and> (unat (getEpochTime cfg (li_ntp_init_update inp)) div unat (UPDATE_PERIOD_PVOUTPUT cfg)
           * unat (UPDATE_PERIOD_PVOUTPUT cfg) + unat (UPDATE_PERIOD_PVOUTPUT cfg) < 2 ^ 32 \<longrightarrow>
         unat (nextUpdateTime s') =
           unat (getEpochTime cfg (li_ntp_init_update inp)) div unat (UPDATE_PERIOD_PVOUTPUT cfg)
             * unat (UPDATE_PERIOD_PVOUTPUT cfg) + unat (UPDATE_PERIOD_PVOUTPUT cfg)
         \<and> unat (nextUpdateTime s') mod unat (UPDATE_PERIOD_PVOUTPUT cfg) = 0
         \<and> getEpochTime cfg (li_ntp_init_update inp) < nextUpdateTime s')
     \<and> (unat (getEpochTime cfg (li_ntp_init_stats inp)) div unat (UPDATE_PERIOD_STATS cfg)
           * unat (UPDATE_PERIOD_STATS cfg) + unat (UPDATE_PERIOD_STATS cfg) < 2 ^ 32 \<longrightarrow>
         unat (nextStatsTime s') =
           unat (getEpochTime cfg (li_ntp_init_stats inp)) div unat (UPDATE_PERIOD_STATS cfg)
             * unat (UPDATE_PERIOD_STATS cfg) + unat (UPDATE_PERIOD_STATS cfg)
         \<and> unat (nextStatsTime s') mod unat (UPDATE_PERIOD_STATS cfg) = 0
         \<and> getEpochTime cfg (li_ntp_init_stats inp) < nextStatsTime s')"
  using first_deadline_unat [OF assms(2)] first_deadline_after [OF assms(2)]
    first_deadline_unat [OF assms(3)] first_deadline_after [OF assms(3)]
  by (simp add: loop_statics_first_call [OF assms])

theorem loop_statics_deadlines_witness:
  "\<not> statics_init boot_state
   \<and> UPDATE_PERIOD_PVOUTPUT sample_config = 300 \<and> UPDATE_PERIOD_STATS sample_config = 30
   \<and> getEpochTime sample_config (li_ntp_init_update (tick 1000 200)) = 1000
   \<and> getEpochTime sample_config (li_ntp_init_stats (tick 1000 200)) = 1000
   \<and> loop_statics sample_config (tick 1000 200) boot_state =
       Some (boot_state\<lparr>statics_init := True, nextUpdateTime := 1200, nextStatsTime := 1020\<rparr>)"
  using loop_statics_deadlines [of boot_state sample_config "tick 1000 200"]
  by (simp add: loop_statics_def sample_config_def default_config_def tick_def boot_state_def
      first_deadline_def getEpochTime_def fromLocalTime_def)

subsection \<open>Which functions touch the windows\<close>

lemma inverterReadTodayEnergy_windows:
  "statics_init (fst (snd (inverterReadTodayEnergy cfg i s))) = statics_init s"
  "nextUpdateTime (fst (snd (inverterReadTodayEnergy cfg i s))) = nextUpdateTime s"
  "nextStatsTime (fst (snd (inverterReadTodayEnergy cfg i s))) = nextStatsTime s"
  by (simp_all add: inverterReadTodayEnergy_def Let_def)

lemma inverterUpdateStatus_total:
  "\<exists>evs. inverterUpdateStatus cfg pf i s =
     Some (if us_online i
           then s\<lparr>inverterStatus :=
                    inverterUpdateStatus_format pf s (inverterUpdateStatus_reads cfg pf i)\<rparr>
           else s, evs)"
  by (simp add: inverterUpdateStatus_def inverterOnline_def mqttSend_nowait Let_def)

lemma pvOutputSend_windows:
  "statics_init (fst (snd (pvOutputSend cfg pf i s))) = statics_init s"
  "nextUpdateTime (fst (snd (pvOutputSend cfg pf i s))) = nextUpdateTime s"
  "nextStatsTime (fst (snd (pvOutputSend cfg pf i s))) = nextStatsTime s"
  by (simp_all add: pvOutputSend_def Let_def)

lemma loop_update_windows:
  "statics_init (fst (snd (loop_update cfg inp pending s))) = statics_init s"
  "nextUpdateTime (fst (snd (loop_update cfg inp pending s))) =
     (if nextUpdateTime s \<le> getEpochTime cfg (li_ntp_update inp)
      then nextUpdateTime s + UPDATE_PERIOD_PVOUTPUT cfg else nextUpdateTime s)"
  "nextStatsTime (fst (snd (loop_update cfg inp pending s))) = nextStatsTime s"
  by (simp_all add: loop_update_def inverterReadTodayEnergy_windows split_beta Let_def)

lemma loop_stats_windows:
  "\<exists>s' evs. loop_stats cfg pf inp s = Some (s', evs)
     \<and> statics_init s' = statics_init s
     \<and> nextUpdateTime s' = nextUpdateTime s
     \<and> nextStatsTime s' =
        (if nextStatsTime s \<le> getEpochTime cfg (li_ntp_stats inp)
         then nextStatsTime s + UPDATE_PERIOD_STATS cfg else nextStatsTime s)"
proof (cases "nextStatsTime s \<le> getEpochTime cfg (li_ntp_stats inp)")
  case True
  from inverterUpdateStatus_total [of cfg pf "li_stats inp" s]
  obtain evs where "inverterUpdateStatus cfg pf (li_stats inp) s =
     Some (if us_online (li_stats inp)
           then s\<lparr>inverterStatus :=
                    inverterUpdateStatus_format pf s (inverterUpdateStatus_reads cfg pf (li_stats inp))\<rparr>
           else s, evs)" ..
  with True show ?thesis by (simp add: loop_stats_def)
next
  case False
  then show ?thesis by (simp add: loop_stats_def)
qed

lemma loop_send_windows:
  "statics_init (fst (snd (loop_send cfg pf inp pending s))) = statics_init s"
  "nextUpdateTime (fst (snd (loop_send cfg pf inp pending s))) = nextUpdateTime s"
  "nextStatsTime (fst (snd (loop_send cfg pf inp pending s))) = nextStatsTime s"
  by (simp_all add: loop_send_def pvOutputSend_windows split_beta Let_def)

lemma loop_windows:
  assumes "statics_init s"
  shows "\<exists>s' evs. loop cfg pf inp s = Some (s', evs)
     \<and> statics_init s'
     \<and> nextUpdateTime s' =
        (if nextUpdateTime s \<le> getEpochTime cfg (li_ntp_update inp)
         then nextUpdateTime s + UPDATE_PERIOD_PVOUTPUT cfg else nextUpdateTime s)
     \<and> nextStatsTime s' =
        (if nextStatsTime s \<le> getEpochTime cfg (li_ntp_stats inp)
         then nextStatsTime s + UPDATE_PERIOD_STATS cfg else nextStatsTime s)"
proof -
  define r where "r = loop_update cfg inp False s"
  obtain s2 evs2 where s2: "loop_stats cfg pf inp (fst (snd r)) = Some (s2, evs2)"
    and s2_init: "statics_init s2 = statics_init (fst (snd r))"
    and s2_update: "nextUpdateTime s2 = nextUpdateTime (fst (snd r))"
    and s2_stats: "nextStatsTime s2 =
        (if nextStatsTime (fst (snd r)) \<le> getEpochTime cfg (li_ntp_stats inp)
         then nextStatsTime (fst (snd r)) + UPDATE_PERIOD_STATS cfg
         else nextStatsTime (fst (snd r)))"
    using loop_stats_windows [of cfg pf inp "fst (snd r)"] by blast
  define q where "q = loop_send cfg pf inp (fst r) s2"
  have "loop cfg pf inp s = Some (fst (snd q), snd (snd r) @ evs2 @ snd (snd q))"
    using assms s2 by (simp add: loop_def loop_statics_def r_def q_def split_beta Let_def)
  moreover have "statics_init (fst (snd q))"
    using assms by (simp add: q_def r_def loop_send_windows s2_init loop_update_windows)
  moreover have "nextUpdateTime (fst (snd q)) =
        (if nextUpdateTime s \<le> getEpochTime cfg (li_ntp_update inp)
         then nextUpdateTime s + UPDATE_PERIOD_PVOUTPUT cfg else nextUpdateTime s)"
    by (simp add: q_def loop_send_windows s2_update) (simp add: r_def loop_update_windows)
  moreover have "nextStatsTime (fst (snd q)) =
        (if nextStatsTime s \<le> getEpochTime cfg (li_ntp_stats inp)
         then nextStatsTime s + UPDATE_PERIOD_STATS cfg else nextStatsTime s)"
    by (simp add: q_def loop_send_windows s2_stats) (simp add: r_def loop_update_windows)
  ultimately show ?thesis by blast
qed

subsection \<open>Successive calls\<close>

lemma loops_catch_up_update:
  assumes "statics_init s"
    and "unat (nextUpdateTime s) + length inps * unat (UPDATE_PERIOD_PVOUTPUT cfg) < 2 ^ 32"
    and "\<forall>inp\<in>set inps.
           unat (nextUpdateTime s) + length inps * unat (UPDATE_PERIOD_PVOUTPUT cfg)
             \<le> unat (getEpochTime cfg (li_ntp_update inp)) + unat (UPDATE_PERIOD_PVOUTPUT cfg)"
  shows "\<exists>s' evs. loops cfg pf inps s = Some (s', evs) \<and> statics_init s'
     \<and> unat (nextUpdateTime s') =
         unat (nextUpdateTime s) + length inps * unat (UPDATE_PERIOD_PVOUTPUT cfg)"
  using assms
proof (induction inps arbitrary: s)
  case Nil
  then show ?case by simp
next
  case (Cons inp inps)
  let ?P = "UPDATE_PERIOD_PVOUTPUT cfg"
  from Cons.prems(3) have "unat (nextUpdateTime s) \<le> unat (getEpochTime cfg (li_ntp_update inp))"
    by simp
  then have due: "nextUpdateTime s \<le> getEpochTime cfg (li_ntp_update inp)"
    by (simp add: word_le_nat_alt)
  from loop_windows [OF Cons.prems(1), of cfg pf inp] due
  obtain s1 evs1 where s1: "loop cfg pf inp s = Some (s1, evs1)" and init1: "statics_init s1"
    and next1: "nextUpdateTime s1 = nextUpdateTime s + ?P"
    by auto
  from Cons.prems(2) have "unat (nextUpdateTime s) + unat ?P < 2 ^ LENGTH(32)"
    by simp
  then have u1: "unat (nextUpdateTime s1) = unat (nextUpdateTime s) + unat ?P"
    by (simp add: next1 unat_add_lem [THEN iffD1])
  from Cons.prems(2) u1
  have a: "unat (nextUpdateTime s1) + length inps * unat ?P < 2 ^ 32"
    by simp
  from Cons.prems(3) u1
  have b: "\<forall>i\<in>set inps. unat (nextUpdateTime s1) + length inps * unat ?P
             \<le> unat (getEpochTime cfg (li_ntp_update i)) + unat ?P"
    by simp
  from Cons.IH [OF init1 a b]
  obtain s' evs where "loops cfg pf inps s1 = Some (s', evs)" and "statics_init s'"
    and "unat (nextUpdateTime s') = unat (nextUpdateTime s1) + length inps * unat ?P"
    by blast
  with s1 u1 show ?case by simp
qed

lemma loops_catch_up_stats:
  assumes "statics_init s"
    and "unat (nextStatsTime s) + length inps * unat (UPDATE_PERIOD_STATS cfg) < 2 ^ 32"
    and "\<forall>inp\<in>set inps.
           unat (nextStatsTime s) + length inps * unat (UPDATE_PERIOD_STATS cfg)
             \<le> unat (getEpochTime cfg (li_ntp_stats inp)) + unat (UPDATE_PERIOD_STATS cfg)"
  shows "\<exists>s' evs. loops cfg pf inps s = Some (s', evs) \<and> statics_init s'
     \<and> unat (nextStatsTime s') =
         unat (nextStatsTime s) + length inps * unat (UPDATE_PERIOD_STATS cfg)"
  using assms
proof (induction inps arbitrary: s)
  case Nil
  then show ?case by simp
next
  case (Cons inp inps)
  let ?P = "UPDATE_PERIOD_STATS cfg"
  from Cons.prems(3) have "unat (nextStatsTime s) \<le> unat (getEpochTime cfg (li_ntp_stats inp))"
    by simp
  then have due: "nextStatsTime s \<le> getEpochTime cfg (li_ntp_stats inp)"
    by (simp add: word_le_nat_alt)
  from loop_windows [OF Cons.prems(1), of cfg pf inp] due
  obtain s1 evs1 where s1: "loop cfg pf inp s = Some (s1, evs1)" and init1: "statics_init s1"
    and next1: "nextStatsTime s1 = nextStatsTime s + ?P"
    by auto
  from Cons.prems(2) have "unat (nextStatsTime s) + unat ?P < 2 ^ LENGTH(32)"
    by simp
  then have u1: "unat (nextStatsTime s1) = unat (nextStatsTime s) + unat ?P"
    by (simp add: next1 unat_add_lem [THEN iffD1])
  from Cons.prems(2) u1
  have a: "unat (nextStatsTime s1) + length inps * unat ?P < 2 ^ 32"
    by simp
  from Cons.prems(3) u1
  have b: "\<forall>i\<in>set inps. unat (nextStatsTime s1) + length inps * unat ?P
             \<le> unat (getEpochTime cfg (li_ntp_stats i)) + unat ?P"
    by simp
  from Cons.IH [OF init1 a b]
  obtain s' evs where "loops cfg pf inps s1 = Some (s', evs)" and "statics_init s'"
    and "unat (nextStatsTime s') = unat (nextStatsTime s1) + length inps * unat ?P"
    by blast
  with s1 u1 show ?case by simp
qed

lemma word_add_no_wrap:
  fixes a p :: u32
  assumes "p \<noteq> 0" and "unat a + unat p < 2 ^ 32"
  shows "unat (a + p) = unat a + unat p \<and> a < a + p"
proof -
  from assms(2) have "unat a + unat p < 2 ^ LENGTH(32)" by simp
  then have u: "unat (a + p) = unat a + unat p"
    by (simp add: unat_add_lem [THEN iffD1])
  from assms(1) have "0 < unat p" by (simp add: unat_gt_0)
  with u show ?thesis by (simp add: word_less_nat_alt)
qed

subsection \<open>Sample values\<close>

lemma sample_times:
  "getEpochTime sample_config t = t"
  "UPDATE_PERIOD_PVOUTPUT sample_config = 300"
  "UPDATE_PERIOD_STATS sample_config = 30"
  "li_ntp_update (tick t code) = t"
  "li_ntp_stats (tick t code) = t"
  "li_ntp_init_update (tick t code) = t"
  "li_ntp_init_stats (tick t code) = t"
  by (simp_all add: getEpochTime_def fromLocalTime_def sample_config_def default_config_def tick_def)

lemma running_state_windows:
  "statics_init running_state"
  "nextUpdateTime running_state = 50100"
  "nextStatsTime running_state = 50010"
  by (simp_all add: running_state_def boot_state_def)

text \<open>
  C5, as stated, fails in 32-bit arithmetic: a due energy window with deadline 4294967100
  is advanced to 104, which is not greater than before.
\<close>

theorem loop_window_wraps:
  "map_option (nextUpdateTime \<circ> fst)
     (loop sample_config reference_platform (tick 4294967200 200)
        (running_state\<lparr>nextUpdateTime := 4294967100, nextStatsTime := 4294967220\<rparr>)) = Some 104
   \<and> \<not> (4294967100 :: u32) < 104"
proof -
  have "statics_init (running_state\<lparr>nextUpdateTime := 4294967100, nextStatsTime := 4294967220\<rparr>)"
    by (simp add: running_state_windows)
  from loop_windows [OF this, of sample_config reference_platform "tick 4294967200 200"]
  show ?thesis by (auto simp: sample_times)
qed

text \<open>
  C5, amended: once the statics are initialised, every call of \<^verbatim>\<open>loop\<close> returns and
  leaves each deadline as it was when the window is not due, and adds the period to it, in
  32-bit arithmetic, when it is due; the deadline is never set from the current time.
  While the deadline plus the period stays below \<open>2\<^sup>3\<^sup>2\<close> (and the period is not zero) the
  new deadline is exactly one period larger. After a blockage that leaves the clock at
  least \<open>n - 1\<close> periods past the deadline, \<open>n\<close> successive calls each find the window
  due and advance it by one period, \<open>n\<close> periods in all.
\<close>

theorem loop_window_advance:
  assumes "statics_init s"
  shows "(\<exists>s' evs. loop cfg pf inp s = Some (s', evs) \<and> statics_init s'
       \<and> nextUpdateTime s' =
          (if nextUpdateTime s \<le> getEpochTime cfg (li_ntp_update inp)
           then nextUpdateTime s + UPDATE_PERIOD_PVOUTPUT cfg else nextUpdateTime s)
       \<and> nextStatsTime s' =
          (if nextStatsTime s \<le> getEpochTime cfg (li_ntp_stats inp)
           then nextStatsTime s + UPDATE_PERIOD_STATS cfg else nextStatsTime s))
     \<and> (UPDATE_PERIOD_PVOUTPUT cfg \<noteq> 0
          \<and> unat (nextUpdateTime s) + unat (UPDATE_PERIOD_PVOUTPUT cfg) < 2 ^ 32 \<longrightarrow>
        unat (nextUpdateTime s + UPDATE_PERIOD_PVOUTPUT cfg) =
          unat (nextUpdateTime s) + unat (UPDATE_PERIOD_PVOUTPUT cfg)
        \<and> nextUpdateTime s < nextUpdateTime s + UPDATE_PERIOD_PVOUTPUT cfg)
     \<and> (UPDATE_PERIOD_STATS cfg \<noteq> 0
          \<and> unat (nextStatsTime s) + unat (UPDATE_PERIOD_STATS cfg) < 2 ^ 32 \<longrightarrow>
        unat (nextStatsTime s + UPDATE_PERIOD_STATS cfg) =
          unat (nextStatsTime s) + unat (UPDATE_PERIOD_STATS cfg)
        \<and> nextStatsTime s < nextStatsTime s + UPDATE_PERIOD_STATS cfg)
     \<and> (unat (nextUpdateTime s) + length inps * unat (UPDATE_PERIOD_PVOUTPUT cfg) < 2 ^ 32
          \<and> (\<forall>i\<in>set inps.
                unat (nextUpdateTime s) + length inps * unat (UPDATE_PERIOD_PVOUTPUT cfg)
                  \<le> unat (getEpochTime cfg (li_ntp_update i)) + unat (UPDATE_PERIOD_PVOUTPUT cfg)) \<longrightarrow>
        (\<exists>s' evs. loops cfg pf inps s = Some (s', evs)
           \<and> unat (nextUpdateTime s') =
               unat (nextUpdateTime s) + length inps * unat (UPDATE_PERIOD_PVOUTPUT cfg)))
     \<and> (unat (nextStatsTime s) + length inps * unat (UPDATE_PERIOD_STATS cfg) < 2 ^ 32
          \<and> (\<forall>i\<in>set inps.
                unat (nextStatsTime s) + length inps * unat (UPDATE_PERIOD_STATS cfg)
                  \<le> unat (getEpochTime cfg (li_ntp_stats i)) + unat (UPDATE_PERIOD_STATS cfg)) \<longrightarrow>
        (\<exists>s' evs. loops cfg pf inps s = Some (s', evs)
           \<and> unat (nextStatsTime s') =
               unat (nextStatsTime s) + length inps * unat (UPDATE_PERIOD_STATS cfg)))"
proof (intro conjI impI)
  show "\<exists>s' evs. loop cfg pf inp s = Some (s', evs) \<and> statics_init s'
       \<and> nextUpdateTime s' =
          (if nextUpdateTime s \<le> getEpochTime cfg (li_ntp_update inp)
           then nextUpdateTime s + UPDATE_PERIOD_PVOUTPUT cfg else nextUpdateTime s)
       \<and> nextStatsTime s' =
          (if nextStatsTime s \<le> getEpochTime cfg (li_ntp_stats inp)
           then nextStatsTime s + UPDATE_PERIOD_STATS cfg else nextStatsTime s)"
    by (rule loop_windows [OF assms])
next
  assume "UPDATE_PERIOD_PVOUTPUT cfg \<noteq> 0
          \<and> unat (nextUpdateTime s) + unat (UPDATE_PERIOD_PVOUTPUT cfg) < 2 ^ 32"
  then show "unat (nextUpdateTime s + UPDATE_PERIOD_PVOUTPUT cfg) =
          unat (nextUpdateTime s) + unat (UPDATE_PERIOD_PVOUTPUT cfg)"
    and "nextUpdateTime s < nextUpdateTime s + UPDATE_PERIOD_PVOUTPUT cfg"
    using word_add_no_wrap [of "UPDATE_PERIOD_PVOUTPUT cfg" "nextUpdateTime s"] by simp_all
next
  assume "UPDATE_PERIOD_STATS cfg \<noteq> 0
          \<and> unat (nextStatsTime s) + unat (UPDATE_PERIOD_STATS cfg) < 2 ^ 32"
  then show "unat (nextStatsTime s + UPDATE_PERIOD_STATS cfg) =
          unat (nextStatsTime s) + unat (UPDATE_PERIOD_STATS cfg)"
    and "nextStatsTime s < nextStatsTime s + UPDATE_PERIOD_STATS cfg"
    using word_add_no_wrap [of "UPDATE_PERIOD_STATS cfg" "nextStatsTime s"] by simp_all
next
  assume "unat (nextUpdateTime s) + length inps * unat (UPDATE_PERIOD_PVOUTPUT cfg) < 2 ^ 32
          \<and> (\<forall>i\<in>set inps.
                unat (nextUpdateTime s) + length inps * unat (UPDATE_PERIOD_PVOUTPUT cfg)
                  \<le> unat (getEpochTime cfg (li_ntp_update i)) + unat (UPDATE_PERIOD_PVOUTPUT cfg))"
  then show "\<exists>s' evs. loops cfg pf inps s = Some (s', evs)
           \<and> unat (nextUpdateTime s') =
               unat (nextUpdateTime s) + length inps * unat (UPDATE_PERIOD_PVOUTPUT cfg)"
    using loops_catch_up_update [OF assms, of inps cfg pf] by blast
next
  assume "unat (nextStatsTime s) + length inps * unat (UPDATE_PERIOD_STATS cfg) < 2 ^ 32
          \<and> (\<forall>i\<in>set inps.
                unat (nextStatsTime s) + length inps * unat (UPDATE_PERIOD_STATS cfg)
                  \<le> unat (getEpochTime cfg (li_ntp_stats i)) + unat (UPDATE_PERIOD_STATS cfg))"
  then show "\<exists>s' evs. loops cfg pf inps s = Some (s', evs)
           \<and> unat (nextStatsTime s') =
               unat (nextStatsTime s) + length inps * unat (UPDATE_PERIOD_STATS cfg)"
    using loops_catch_up_stats [OF assms, of inps cfg pf] by blast
qed

theorem loop_window_advance_witness:
  "statics_init running_state
   \<and> map_option (\<lambda>r. (nextUpdateTime (fst r), nextStatsTime (fst r)))
       (loop sample_config reference_platform (tick 50700 200) running_state) = Some (50400, 50040)
   \<and> map_option (\<lambda>r. (unat (nextUpdateTime (fst r)), unat (nextStatsTime (fst r))))
       (loops sample_config reference_platform [tick 50700 200, tick 50701 200, tick 50702 200]
          running_state) = Some (51000, 50100)"
  using loop_window_advance [of running_state sample_config reference_platform "tick 50700 200"
      "[tick 50700 200, tick 50701 200, tick 50702 200]"]
  by (auto simp: sample_times running_state_windows)

section \<open>A failed report\<close>

lemma year_loop_first: "year_loop 0 0 0 = (0, 365)"
  by (simp add: year_loop.simps [of 0 0 0] LEAP_YEAR_def)

lemma sample_breakTime:
  "breakTime 1200 = (1970, 1, 1)" "breakTime 50000 = (1970, 1, 1)"
  by (simp_all add: breakTime_def year_loop_first LEAP_YEAR_def)

lemma sample_fmt_0d:
  "fmt_0d 4 1970 = ''1970''" "fmt_0d 2 1 = ''01''" "fmt_0d 2 0 = ''00''" "fmt_0d 2 20 = ''20''"
  "fmt_0d 2 13 = ''13''" "fmt_0d 2 53 = ''53''"
  by (simp_all add: fmt_0d_def dec.simps Let_def)

lemma sample_post_data:
  "pvOutputSend_post_data sample_config reference_platform
     (boot_state\<lparr>energyToday := 4200, energyTodayLastUpdate := 1200, statics_init := True,
        nextUpdateTime := 1500, nextStatsTime := 1230\<rparr>) = ''d=19700101&t=00:20&v1=4200&c1=0''"
  "pvOutputSend_post_data sample_config reference_platform running_state
     = ''d=19700101&t=13:53&v1=4200&c1=0''"
  by (simp_all add: pvOutputSend_post_data_def sample_config_def default_config_def
      running_state_def boot_state_def reference_platform_fields toLocalTime_def
      sample_breakTime sample_fmt_0d sample_fmt_lu)

lemma sample_first_pass:
  "loop sample_config reference_platform (tick 1190 200) boot_state =
     Some (boot_state\<lparr>statics_init := True, nextUpdateTime := 1200, nextStatsTime := 1200\<rparr>, [])"
  by (simp add: loop_def loop_statics_def loop_update_def loop_stats_def loop_send_def
      first_deadline_def sample_times boot_state_def)

lemma sample_failed_report:
  "loop sample_config reference_platform (tick 1200 500)
     (boot_state\<lparr>statics_init := True, nextUpdateTime := 1200, nextStatsTime := 1200\<rparr>) =
     Some (boot_state\<lparr>energyToday := 4200, energyTodayLastUpdate := 1200, statics_init := True,
             nextUpdateTime := 1500, nextStatsTime := 1230\<rparr>,
           [InverterWriteTimeDate 1200, LedFlashFast 1, LedFlashFast 1,
            HttpPost ''d=19700101&t=00:20&v1=4200&c1=0'', LedFlashFast 5, LoopDelay 1000])"
proof -
  have pv: "pvOutputSend sample_config reference_platform (li_pv (tick 1200 500))
     (boot_state\<lparr>energyToday := 4200, energyTodayLastUpdate := 1200, statics_init := True,
        nextUpdateTime := 1500, nextStatsTime := 1230\<rparr>) =
     (False, boot_state\<lparr>energyToday := 4200, energyTodayLastUpdate := 1200, statics_init := True,
        nextUpdateTime := 1500, nextStatsTime := 1230\<rparr>,
      [HttpPost ''d=19700101&t=00:20&v1=4200&c1=0''])"
    by (simp add: pvOutputSend_def sample_post_data mqttLog_def tick_def pv_answer_def)
  have upd: "loop_update sample_config (tick 1200 500) False
     (boot_state\<lparr>statics_init := True, nextUpdateTime := 1200, nextStatsTime := 1200\<rparr>) =
     (True, boot_state\<lparr>energyToday := 4200, energyTodayLastUpdate := 1200, statics_init := True,
        nextUpdateTime := 1500, nextStatsTime := 1200\<rparr>,
      [InverterWriteTimeDate 1200, LedFlashFast 1])"
    by (simp add: loop_update_def sample_times inverterSetTime_def inverterReadTodayEnergy_def
        mqttLog_def toLocalTime_def sample_config_def default_config_def getEpochTime_def
        fromLocalTime_def tick_def boot_state_def)
  have stats: "loop_stats sample_config reference_platform (tick 1200 500)
     (boot_state\<lparr>energyToday := 4200, energyTodayLastUpdate := 1200, statics_init := True,
        nextUpdateTime := 1500, nextStatsTime := 1200\<rparr>) =
     Some (boot_state\<lparr>energyToday := 4200, energyTodayLastUpdate := 1200, statics_init := True,
        nextUpdateTime := 1500, nextStatsTime := 1230\<rparr>, [LedFlashFast 1])"
    by (simp add: loop_stats_def sample_times inverterUpdateStatus_def inverterOnline_def
        tick_def stats_offline_def boot_state_def)
  show ?thesis
    by (simp add: loop_def loop_statics_def upd stats loop_send_def pv)
       (simp add: tick_def)
qed

lemma sample_next_pass:
  "loop sample_config reference_platform (tick 1201 200)
     (boot_state\<lparr>energyToday := 4200, energyTodayLastUpdate := 1200, statics_init := True,
        nextUpdateTime := 1500, nextStatsTime := 1230\<rparr>) =
     Some (boot_state\<lparr>energyToday := 4200, energyTodayLastUpdate := 1200, statics_init := True,
        nextUpdateTime := 1500, nextStatsTime := 1230\<rparr>, [])"
  by (simp add: loop_def loop_statics_def loop_update_def loop_stats_def loop_send_def
      sample_times)

text \<open>
  C1: the code loses the pending report. \<^verbatim>\<open>pvOutputUpdatePending\<close> is a plain local of
  \<^verbatim>\<open>loop\<close>, so it is false again when the next call starts. In the run below the first
  call initialises the windows, the second reads 4200 Wh at epoch 1200 and posts it, the
  endpoint answers 500; the third call, one second later, posts nothing, although the
  endpoint would now answer 200.
\<close>

theorem loop_failed_report_not_retried:
  "loops sample_config reference_platform [tick 1190 200, tick 1200 500, tick 1201 200] boot_state =
     Some (boot_state\<lparr>energyToday := 4200, energyTodayLastUpdate := 1200, statics_init := True,
             nextUpdateTime := 1500, nextStatsTime := 1230\<rparr>,
           [InverterWriteTimeDate 1200, LedFlashFast 1, LedFlashFast 1,
            HttpPost ''d=19700101&t=00:20&v1=4200&c1=0'', LedFlashFast 5, LoopDelay 1000])
   \<and> loop sample_config reference_platform (tick 1201 200)
        (boot_state\<lparr>energyToday := 4200, energyTodayLastUpdate := 1200, statics_init := True,
           nextUpdateTime := 1500, nextStatsTime := 1230\<rparr>) =
     Some (boot_state\<lparr>energyToday := 4200, energyTodayLastUpdate := 1200, statics_init := True,
             nextUpdateTime := 1500, nextStatsTime := 1230\<rparr>, [])"
  by (simp add: sample_first_pass sample_failed_report sample_next_pass)

section \<open>The snapshot of a stats cycle\<close>

lemma inverterUpdateStatus_format_untruncated:
  \<open>inverterUpdateStatus_format pf s l =
     ''{"last_update": '' @ fmt_lu (l_now l)
     @ '', "energy_today": '' @ fmt_lu (l_energyToday l)
     @ '', "energy_total": '' @ fmt_lu (l_energyLifetime l)
     @ '', "last_pvoutput_read": '' @ fmt_lu (energyTodayLastUpdate s)
     @ '', "last_pvoutput_sent": '' @ fmt_lu (energyTodayLastPublished s)
     @ '', "p_in": '' @ formatFloat pf 20 (l_pIn l)
     @ '', "p_in_1": '' @ formatFloat pf 20 (l_pIn1 l)
     @ '', "p_in_2": '' @ formatFloat pf 20 (l_pIn2 l)
     @ '', "grid_voltage": '' @ formatFloat pf 20 (l_vGrid l)
     @ '', "grid_frequency": '' @ formatFloat pf 20 (l_fGrid l)
     @ '', "temp_inverter": '' @ formatFloat pf 20 (l_tempInverter l)
     @ '', "temp_booster": '' @ formatFloat pf 20 (l_tempBooster l) @ ''}''\<close>
proof -
  note n = length_fmt_lu [of "l_now l"] length_fmt_lu [of "l_energyToday l"]
    length_fmt_lu [of "l_energyLifetime l"] length_fmt_lu [of "energyTodayLastUpdate s"]
    length_fmt_lu [of "energyTodayLastPublished s"]
    length_formatFloat [of pf "l_pIn l"] length_formatFloat [of pf "l_pIn1 l"]
    length_formatFloat [of pf "l_pIn2 l"] length_formatFloat [of pf "l_vGrid l"]
    length_formatFloat [of pf "l_fGrid l"] length_formatFloat [of pf "l_tempInverter l"]
    length_formatFloat [of pf "l_tempBooster l"]
  show ?thesis
    unfolding inverterUpdateStatus_format_def
    using n by (subst take_all) simp_all
qed

lemma formatFloat_NaN: "isnan v \<Longrightarrow> formatFloat pf 20 v = ''NaN''"
  by (simp add: formatFloat_def)

lemma inverterReadDSP_failed: "\<not> dsp_readState d \<Longrightarrow> inverterReadDSP d = NAN"
  by (simp add: inverterReadDSP_def)

lemma inverterUpdateStatus_online:
  assumes "us_online inp"
  shows "\<exists>evs. inverterUpdateStatus cfg pf inp s =
     Some (s\<lparr>inverterStatus :=
              inverterUpdateStatus_format pf s (inverterUpdateStatus_reads cfg pf inp)\<rparr>, evs)"
  using assms inverterUpdateStatus_total [of cfg pf inp s] by simp

lemma reads_fields:
  "l_now (inverterUpdateStatus_reads cfg pf inp) = getEpochTime cfg (us_ntp inp)"
  "l_energyToday (inverterUpdateStatus_reads cfg pf inp) =
     (if ce_readState (us_daily inp) then ce_energy (us_daily inp) else 0)"
  "l_energyLifetime (inverterUpdateStatus_reads cfg pf inp) =
     (if ce_readState (us_lifetime inp) then ce_energy (us_lifetime inp) else 0)"
  "l_pIn1 (inverterUpdateStatus_reads cfg pf inp) = inverterReadDSP (us_pin1 inp)"
  "l_pIn2 (inverterUpdateStatus_reads cfg pf inp) = inverterReadDSP (us_pin2 inp)"
  "l_pIn (inverterUpdateStatus_reads cfg pf inp) =
     (if \<not> isnan (inverterReadDSP (us_pin1 inp)) \<and> \<not> isnan (inverterReadDSP (us_pin2 inp))
      then fadd pf (inverterReadDSP (us_pin1 inp)) (inverterReadDSP (us_pin2 inp)) else NAN)"
  "l_vGrid (inverterUpdateStatus_reads cfg pf inp) = inverterReadDSP (us_vgrid inp)"
  "l_fGrid (inverterUpdateStatus_reads cfg pf inp) = inverterReadDSP (us_fgrid inp)"
  "l_tempInverter (inverterUpdateStatus_reads cfg pf inp) = inverterReadDSP (us_temp_inverter inp)"
  "l_tempBooster (inverterUpdateStatus_reads cfg pf inp) = inverterReadDSP (us_temp_booster inp)"
  by (simp_all add: inverterUpdateStatus_reads_def Let_def)




text \<open>
  C2, as stated, fails for the two energy fields: they are unsigned integers, which have no
  missing marker. In the cycle below the read of today's energy fails and the snapshot
  shows \<^verbatim>\<open>"energy_today": 0\<close>, not \<^verbatim>\<open>NaN\<close>.
\<close>

theorem failed_energy_read_is_zero:
  \<open>us_online stats_partial \<and> \<not> ce_readState (us_daily stats_partial)
   \<and> map_option (inverterStatus \<circ> fst)
       (inverterUpdateStatus sample_config reference_platform stats_partial running_state) =
     Some ''{"last_update": 1200, "energy_today": 0, "energy_total": 123456, "last_pvoutput_read": 50000, "last_pvoutput_sent": 0, "p_in": NaN, "p_in_1": 1500.00, "p_in_2": NaN, "grid_voltage": 240.00, "grid_frequency": 50.00, "temp_inverter": 40.00, "temp_booster": 35.50}''\<close>
proof -
  have online: "us_online stats_partial"
    by (simp add: stats_partial_def stats_full_def)
  from inverterUpdateStatus_online [OF online, of sample_config reference_platform running_state]
  show ?thesis
    by (auto simp: online inverterUpdateStatus_format_untruncated reads_fields)
       (simp_all add: stats_partial_def stats_full_def failed_energy_def failed_dsp_def
         inverterReadDSP_def isnan_NAN sample_not_nan formatFloat_def reference_platform_fields
         sample_printf_f2 sample_fmt_lu sample_times running_state_def boot_state_def)
qed

text \<open>
  C2, amended: a stats cycle that runs replaces the whole snapshot by a text built from
  the reads of this cycle and the two stored report timestamps; nothing of the earlier
  snapshot remains. Each of the six float reads that failed, and the total input power
  when a string-power read failed, appears as the literal \<^verbatim>\<open>NaN\<close>. Today's energy and
  lifetime energy appear as 0 when their read failed.
\<close>

theorem snapshot_rebuilt_each_cycle:
  assumes "us_online inp" and "l = inverterUpdateStatus_reads cfg pf inp"
  shows \<open>(\<exists>evs. inverterUpdateStatus cfg pf inp s =
       Some (s\<lparr>inverterStatus :=
       ''{"last_update": '' @ fmt_lu (l_now l)
       @ '', "energy_today": '' @ fmt_lu (l_energyToday l)
       @ '', "energy_total": '' @ fmt_lu (l_energyLifetime l)
       @ '', "last_pvoutput_read": '' @ fmt_lu (energyTodayLastUpdate s)
       @ '', "last_pvoutput_sent": '' @ fmt_lu (energyTodayLastPublished s)
       @ '', "p_in": '' @ formatFloat pf 20 (l_pIn l)
       @ '', "p_in_1": '' @ formatFloat pf 20 (l_pIn1 l)
       @ '', "p_in_2": '' @ formatFloat pf 20 (l_pIn2 l)
       @ '', "grid_voltage": '' @ formatFloat pf 20 (l_vGrid l)
       @ '', "grid_frequency": '' @ formatFloat pf 20 (l_fGrid l)
       @ '', "temp_inverter": '' @ formatFloat pf 20 (l_tempInverter l)
       @ '', "temp_booster": '' @ formatFloat pf 20 (l_tempBooster l) @ ''}''\<rparr>, evs))
     \<and> l_now l = getEpochTime cfg (us_ntp inp)
     \<and> l_energyToday l = (if ce_readState (us_daily inp) then ce_energy (us_daily inp) else 0)
     \<and> l_energyLifetime l =
         (if ce_readState (us_lifetime inp) then ce_energy (us_lifetime inp) else 0)
     \<and> fmt_lu 0 = ''0''
     \<and> (\<not> dsp_readState (us_pin1 inp) \<longrightarrow> formatFloat pf 20 (l_pIn1 l) = ''NaN'')
     \<and> (\<not> dsp_readState (us_pin2 inp) \<longrightarrow> formatFloat pf 20 (l_pIn2 l) = ''NaN'')
     \<and> (\<not> dsp_readState (us_pin1 inp) \<or> \<not> dsp_readState (us_pin2 inp) \<longrightarrow>
          formatFloat pf 20 (l_pIn l) = ''NaN'')
     \<and> (\<not> dsp_readState (us_vgrid inp) \<longrightarrow> formatFloat pf 20 (l_vGrid l) = ''NaN'')
     \<and> (\<not> dsp_readState (us_fgrid inp) \<longrightarrow> formatFloat pf 20 (l_fGrid l) = ''NaN'')
     \<and> (\<not> dsp_readState (us_temp_inverter inp) \<longrightarrow>
          formatFloat pf 20 (l_tempInverter l) = ''NaN'')
     \<and> (\<not> dsp_readState (us_temp_booster inp) \<longrightarrow>
          formatFloat pf 20 (l_tempBooster l) = ''NaN'')\<close>
proof -
  from inverterUpdateStatus_online [OF assms(1), of cfg pf s]
  have \<open>\<exists>evs. inverterUpdateStatus cfg pf inp s =
       Some (s\<lparr>inverterStatus :=
       ''{"last_update": '' @ fmt_lu (l_now l)
       @ '', "energy_today": '' @ fmt_lu (l_energyToday l)
       @ '', "energy_total": '' @ fmt_lu (l_energyLifetime l)
       @ '', "last_pvoutput_read": '' @ fmt_lu (energyTodayLastUpdate s)
       @ '', "last_pvoutput_sent": '' @ fmt_lu (energyTodayLastPublished s)
       @ '', "p_in": '' @ formatFloat pf 20 (l_pIn l)
       @ '', "p_in_1": '' @ formatFloat pf 20 (l_pIn1 l)
       @ '', "p_in_2": '' @ formatFloat pf 20 (l_pIn2 l)
       @ '', "grid_voltage": '' @ formatFloat pf 20 (l_vGrid l)
       @ '', "grid_frequency": '' @ formatFloat pf 20 (l_fGrid l)
       @ '', "temp_inverter": '' @ formatFloat pf 20 (l_tempInverter l)
       @ '', "temp_booster": '' @ formatFloat pf 20 (l_tempBooster l) @ ''}''\<rparr>, evs)\<close>
    by (simp only: assms(2) [symmetric] inverterUpdateStatus_format_untruncated)
  moreover have "formatFloat pf 20 (inverterReadDSP d) = ''NaN''" if "\<not> dsp_readState d" for d
    using that by (simp add: inverterReadDSP_failed formatFloat_NaN isnan_NAN)
  moreover have "formatFloat pf 20 (l_pIn l) = ''NaN''"
    if "\<not> dsp_readState (us_pin1 inp) \<or> \<not> dsp_readState (us_pin2 inp)"
    using that by (auto simp: assms(2) reads_fields inverterReadDSP_failed formatFloat_NaN isnan_NAN)
  moreover have "fmt_lu 0 = ''0''"
    by (simp add: fmt_lu_def dec.simps)
  ultimately show ?thesis
    by (simp add: assms(2) reads_fields)
qed

theorem snapshot_rebuilt_each_cycle_witness:
  \<open>us_online stats_partial
   \<and> \<not> dsp_readState (us_pin2 stats_partial)
   \<and> formatFloat reference_platform 20
        (l_pIn2 (inverterUpdateStatus_reads sample_config reference_platform stats_partial)) = ''NaN''
   \<and> formatFloat reference_platform 20
        (l_pIn (inverterUpdateStatus_reads sample_config reference_platform stats_partial)) = ''NaN''
   \<and> fmt_lu (l_energyToday (inverterUpdateStatus_reads sample_config reference_platform stats_partial))
        = ''0''\<close>
  using snapshot_rebuilt_each_cycle [of stats_partial
      "inverterUpdateStatus_reads sample_config reference_platform stats_partial"
      sample_config reference_platform running_state]
  by (simp add: stats_partial_def stats_full_def failed_dsp_def failed_energy_def)


section \<open>The payload of the cloud report\<close>




end
